theory Spec2Isabelle
  imports Complex_Main "HOL-Library.Multiset"
begin

section \<open>Conventions of the embedding\<close>

text \<open>
  The dashboard's engine lives in \<^verbatim>\<open>src/StockDashboard.jsx\<close>: the price-history generator
  \<^verbatim>\<open>generatePriceHistory\<close>, the table \<^verbatim>\<open>MOCK_STOCKS\<close>, the fetch \<^verbatim>\<open>fetchData\<close> of the hook
  \<^verbatim>\<open>useStockData\<close>, the chart slice \<^verbatim>\<open>filteredData\<close> and the table pipeline
  \<^verbatim>\<open>processedStocks\<close> with its \<^verbatim>\<open>parseNumeric\<close>.

  \<^item> JavaScript numbers are idealised as \<^typ>\<open>real\<close>: products and sums are exact, there is
    no NaN and no infinity. Where the source can produce NaN (\<^verbatim>\<open>parseFloat\<close>) the model
    returns \<^typ>\<open>real option\<close> with \<^term>\<open>None\<close> for NaN.
  \<^item> Strings are \<^typ>\<open>string\<close>; case conversion acts on the ASCII letters and leaves every
    other character alone.
  \<^item> A \<^verbatim>\<open>Date\<close> is the number of its local calendar day, counted from 1 January 1970
    (day \<open>0\<close>, a Thursday); \<^verbatim>\<open>getDay\<close> and the label read the calendar day only.
    \<^verbatim>\<open>setDate(getDate() - i)\<close> asks for the local time of day of \<open>now\<close> on the day \<open>i\<close> days
    back. Where a transition of the time zone has skipped that local time, the runtime
    reads it with the offset before the transition, which is a later time: on the same
    day, or on the next day (no transition skips more than 24 hours). A \<open>zone\<close> tells for
    each day whether the request for it lands on the next day; in the zone \<open>regular\<close>
    none does. The day count \<open>days\<close> is an integer, as in the one call of the source.
  \<^item> \<^verbatim>\<open>Math.random()\<close> is a sequence \<open>rnd :: nat \<Rightarrow> real\<close> of the values the coming calls
    return: a call reads \<open>rnd 0\<close> and leaves the shifted sequence. The runtime promises
    \<open>0 \<le> rnd k < 1\<close>, which theorems assume as \<open>unit_draws rnd\<close> where they need it.
\<close>

type_synonym Date = int
type_synonym random = "nat \<Rightarrow> real"
type_synonym zone = "Date \<Rightarrow> bool"

definition unit_draws :: "random \<Rightarrow> bool" where
  "unit_draws rnd = (\<forall>k. 0 \<le> rnd k \<and> rnd k < 1)"

definition shift :: "nat \<Rightarrow> random \<Rightarrow> random" where
  "shift n rnd = (\<lambda>k. rnd (k + n))"

section \<open>Strings\<close>

text \<open>\<^verbatim>\<open>toUpperCase\<close>, \<^verbatim>\<open>toLowerCase\<close>, \<^verbatim>\<open>includes\<close> and \<^verbatim>\<open>endsWith\<close> of the runtime.\<close>

definition lowerLetters :: string where
  "lowerLetters = ''abcdefghijklmnopqrstuvwxyz''"

definition upperLetters :: string where
  "upperLetters = ''ABCDEFGHIJKLMNOPQRSTUVWXYZ''"

definition toUpperCase :: "string \<Rightarrow> string" where
  "toUpperCase s =
     map (\<lambda>c. case map_of (zip lowerLetters upperLetters) c of Some u \<Rightarrow> u | None \<Rightarrow> c) s"

definition toLowerCase :: "string \<Rightarrow> string" where
  "toLowerCase s =
     map (\<lambda>c. case map_of (zip upperLetters lowerLetters) c of Some l \<Rightarrow> l | None \<Rightarrow> c) s"

fun startsWith :: "string \<Rightarrow> string \<Rightarrow> bool" where
  "startsWith s [] = True"
| "startsWith [] (q # qs) = False"
| "startsWith (c # cs) (q # qs) = (c = q \<and> startsWith cs qs)"

fun includes' :: "string \<Rightarrow> string \<Rightarrow> bool" where
  "includes' [] q = (q = [])"
| "includes' (c # cs) q = (startsWith (c # cs) q \<or> includes' cs q)"

definition endsWith :: "string \<Rightarrow> string \<Rightarrow> bool" where
  "endsWith s t = (length t \<le> length s \<and> drop (length s - length t) s = t)"

section \<open>Market snapshot store\<close>

text \<open>
  A value of \<^verbatim>\<open>MOCK_STOCKS\<close> is a \<open>Quote\<close>; \<^verbatim>\<open>{ symbol: sym, ...data }\<close>, which both the
  fetch and the table build, is a \<open>Stock\<close>. The table keeps the order of the object
  literal, which is the order \<^verbatim>\<open>Object.entries\<close> lists its keys in.
\<close>

record Quote =
  name :: string
  price :: real
  change :: real
  changePercent :: real
  marketCap :: string
  pe :: real
  volume :: string
  sector :: string

record Stock = Quote +
  symbol :: string

definition withSymbol :: "string \<Rightarrow> Quote \<Rightarrow> Stock" where
  "withSymbol s q =
     \<lparr> name = name q, price = price q, change = change q, changePercent = changePercent q,
       marketCap = marketCap q, pe = pe q, volume = volume q, sector = sector q, symbol = s \<rparr>"

definition MOCK_STOCKS :: "(string \<times> Quote) list" where
  "MOCK_STOCKS =
    [(''AAPL'', \<lparr> name = ''Apple Inc.'', price = 189.3, change = 1.24, changePercent = 0.66,
        marketCap = ''2.94T'', pe = 29.4, volume = ''58.2M'', sector = ''Technology'' \<rparr>),
     (''MSFT'', \<lparr> name = ''Microsoft Corp.'', price = 415.2, change = - 2.1, changePercent = - 0.5,
        marketCap = ''3.08T'', pe = 34.7, volume = ''22.1M'', sector = ''Technology'' \<rparr>),
     (''GOOGL'', \<lparr> name = ''Alphabet Inc.'', price = 172.8, change = 3.45, changePercent = 2.04,
        marketCap = ''2.17T'', pe = 24.1, volume = ''19.8M'', sector = ''Technology'' \<rparr>),
     (''AMZN'', \<lparr> name = ''Amazon.com Inc.'', price = 201.4, change = - 0.8, changePercent = - 0.4,
        marketCap = ''2.13T'', pe = 44.2, volume = ''31.5M'', sector = ''Consumer'' \<rparr>),
     (''TSLA'', \<lparr> name = ''Tesla Inc.'', price = 248.5, change = 8.2, changePercent = 3.41,
        marketCap = ''792B'', pe = 73.1, volume = ''112.4M'', sector = ''Automotive'' \<rparr>),
     (''META'', \<lparr> name = ''Meta Platforms'', price = 524.7, change = 6.3, changePercent = 1.22,
        marketCap = ''1.34T'', pe = 26.8, volume = ''14.9M'', sector = ''Technology'' \<rparr>),
     (''NVDA'', \<lparr> name = ''NVIDIA Corp.'', price = 875.4, change = 22.1, changePercent = 2.59,
        marketCap = ''2.16T'', pe = 67.3, volume = ''44.7M'', sector = ''Semiconductors'' \<rparr>),
     (''JPM'', \<lparr> name = ''JPMorgan Chase'', price = 213.6, change = - 1.2, changePercent = - 0.56,
        marketCap = ''613B'', pe = 11.4, volume = ''8.3M'', sector = ''Finance'' \<rparr>),
     (''BRK'', \<lparr> name = ''Berkshire Hathaway'', price = 424.1, change = 0.9, changePercent = 0.21,
        marketCap = ''927B'', pe = 21.2, volume = ''3.1M'', sector = ''Finance'' \<rparr>),
     (''V'', \<lparr> name = ''Visa Inc.'', price = 276.3, change = 1.8, changePercent = 0.66,
        marketCap = ''554B'', pe = 30.1, volume = ''6.7M'', sector = ''Finance'' \<rparr>)]"

text \<open>
  \<^verbatim>\<open>MOCK_STOCKS[upperSym]\<close>. The read would also find the members every object inherits
  (\<^verbatim>\<open>constructor\<close>, \<^verbatim>\<open>toString\<close>, ...); each of their names holds a lower-case letter, and
  \<open>upperSym\<close> holds none, so the own keys decide.
\<close>

definition stockInfoOf :: "string \<Rightarrow> Quote option" where
  "stockInfoOf upperSym = map_of MOCK_STOCKS upperSym"

section \<open>Dates\<close>

text \<open>\<^verbatim>\<open>date.getDay()\<close>: 0 is Sunday, 6 is Saturday; day 0 is a Thursday.\<close>

definition getDay :: "Date \<Rightarrow> int" where
  "getDay d = (d + 4) mod 7"

text \<open>
  \<^verbatim>\<open>date.toLocaleDateString("en-US", { month: "short", day: "numeric" })\<close>, for example
  \<^verbatim>\<open>"Jan 5"\<close>: the month and the day of the month of a day number in the Gregorian calendar,
  by the usual era arithmetic (an era is 400 years, 146097 days, starting on 1 March).
\<close>

text \<open>\<^verbatim>\<open>const date = new Date(now); date.setDate(date.getDate() - i)\<close>.\<close>

definition dateBack :: "zone \<Rightarrow> Date \<Rightarrow> int \<Rightarrow> Date" where
  "dateBack zone now i = (if zone (now - i) then now - i + 1 else now - i)"

definition monthNames :: "string list" where
  "monthNames = [''Jan'', ''Feb'', ''Mar'', ''Apr'', ''May'', ''Jun'',
                 ''Jul'', ''Aug'', ''Sep'', ''Oct'', ''Nov'', ''Dec'']"

definition monthDay :: "Date \<Rightarrow> nat \<times> nat" where
  "monthDay d =
     (let doe = (d + 719468) mod 146097;
          yoe = (doe - doe div 1460 + doe div 36524 - doe div 146096) div 365;
          doy = doe - (365 * yoe + yoe div 4 - yoe div 100);
          mp = (5 * doy + 2) div 153;
          dd = doy - (153 * mp + 2) div 5 + 1;
          m = (if mp < 10 then mp + 3 else mp - 9)
      in (nat m, nat dd))"

fun digits :: "nat \<Rightarrow> string" where
  "digits n =
     (if n < 10 then [''0123456789'' ! n] else digits (n div 10) @ [''0123456789'' ! (n mod 10)])"

definition toLocaleDateString :: "Date \<Rightarrow> string" where
  "toLocaleDateString d =
     (case monthDay d of (m, dd) \<Rightarrow> monthNames ! (m - 1) @ '' '' @ digits dd)"

section \<open>Price history generator\<close>

record DailyBar =
  day :: Date
  date :: string
  price :: real
  open' :: real
  high :: real
  low :: real
  volume :: int

text \<open>
  The field \<open>day\<close> is not in the source's object: it is the \<^verbatim>\<open>Date\<close> the label \<open>date\<close> was
  rendered from, kept so that the order of the entries can be stated.

  \<^verbatim>\<open>parseFloat(x.toFixed(2))\<close>: \<^verbatim>\<open>toFixed\<close> takes the sign off, picks the integer \<open>n\<close> with
  \<open>n / 100\<close> closest to the value (the larger one on a tie), and prints a number of size
  \<open>10^21\<close> or more as it is.
\<close>

definition toFixed2 :: "real \<Rightarrow> real" where
  "toFixed2 x =
     (if 10 ^ 21 \<le> \<bar>x\<bar> then x
      else if x < 0 then - (of_int \<lfloor>(- x) * 100 + 1 / 2\<rfloor> / 100)
      else of_int \<lfloor>x * 100 + 1 / 2\<rfloor> / 100)"

text \<open>The right-hand sides of lines 62 to 68, as functions of the draw they read.\<close>

definition dailyReturn :: "real \<Rightarrow> real" where
  "dailyReturn u = (u - 0.48) * 0.06"

definition openOf :: "real \<Rightarrow> real \<Rightarrow> real" where
  "openOf p u = p * (1 + (u - 0.5) * 0.01)"

definition highOf :: "real \<Rightarrow> real \<Rightarrow> real" where
  "highOf p u = p * (1 + u * 0.02)"

definition lowOf :: "real \<Rightarrow> real \<Rightarrow> real" where
  "lowOf p u = p * (1 - u * 0.02)"

definition volumeOf :: "real \<Rightarrow> int" where
  "volumeOf u = \<lfloor>u * 80000000 + 20000000\<rfloor>"

text \<open>
  The loop \<^verbatim>\<open>for (let i = days; i >= 0; i--)\<close>. A kept day reads five draws, in the order
  of the source, and \<^verbatim>\<open>history.push\<close> puts its bar before those of the later days.
\<close>

function historyLoop :: "zone \<Rightarrow> random \<Rightarrow> Date \<Rightarrow> real \<Rightarrow> int \<Rightarrow> DailyBar list" where
  "historyLoop zone rnd now p i =
     (if 0 \<le> i then
        (if getDay (dateBack zone now i) = 0 \<or> getDay (dateBack zone now i) = 6
         then historyLoop zone rnd now p (i - 1)
         else
           \<lparr> day = dateBack zone now i,
             date = toLocaleDateString (dateBack zone now i),
             price = toFixed2 (p * (1 + dailyReturn (rnd 0))),
             open' = toFixed2 (openOf (p * (1 + dailyReturn (rnd 0))) (rnd 1)),
             high = toFixed2 (highOf (p * (1 + dailyReturn (rnd 0))) (rnd 2)),
             low = toFixed2 (lowOf (p * (1 + dailyReturn (rnd 0))) (rnd 3)),
             volume = volumeOf (rnd 4) \<rparr>
           # historyLoop zone (shift 5 rnd) now (p * (1 + dailyReturn (rnd 0))) (i - 1))
      else [])"
  by pat_completeness auto
termination
  by (relation "measure (\<lambda>(zone, rnd, now, p, i). nat (i + 1))") auto

definition generatePriceHistory ::
  "zone \<Rightarrow> random \<Rightarrow> Date \<Rightarrow> string \<Rightarrow> real \<Rightarrow> int \<Rightarrow> DailyBar list" where
  "generatePriceHistory zone rnd now symbol' basePrice days =
     historyLoop zone rnd now basePrice days"

section \<open>Quote lookup: \<^verbatim>\<open>fetchData\<close>\<close>

text \<open>
  The hook's state, and the calls of its setters. \<^verbatim>\<open>fetchData\<close> is the list of setter calls
  it makes, in order; a run applies them to the state. The wait in the \<^verbatim>\<open>try\<close> block lies
  between the second call and the third, reads one draw for its length and changes
  nothing else, so the generator reads the draws after it. A \<^verbatim>\<open>throw\<close> in the \<^verbatim>\<open>try\<close>
  block is the value \<open>Inl\<close> of the message, which the \<^verbatim>\<open>catch\<close> block receives.
\<close>

record HookState =
  data :: "Stock option"
  history :: "DailyBar list"
  loading :: bool
  error :: "string option"

datatype action =
  SetLoading bool
| SetError "string option"
| SetData "Stock option"
| SetHistory "DailyBar list"

fun applyAction :: "HookState \<Rightarrow> action \<Rightarrow> HookState" where
  "applyAction st (SetLoading b) = st\<lparr>loading := b\<rparr>"
| "applyAction st (SetError e) = st\<lparr>error := e\<rparr>"
| "applyAction st (SetData d) = st\<lparr>data := d\<rparr>"
| "applyAction st (SetHistory h) = st\<lparr>history := h\<rparr>"

definition run :: "HookState \<Rightarrow> action list \<Rightarrow> HookState" where
  "run st acts = foldl applyAction st acts"

definition notFound :: "string \<Rightarrow> string" where
  \<open>notFound upperSym = ''Symbol "'' @ upperSym @ ''" not found. Try: AAPL, MSFT, GOOGL, TSLA, NVDA''\<close>

definition tryBlock :: "zone \<Rightarrow> random \<Rightarrow> Date \<Rightarrow> string \<Rightarrow> string + action list" where
  "tryBlock zone rnd now sym' =
     (let upperSym = toUpperCase sym' in
      case stockInfoOf upperSym of
        None \<Rightarrow> Inl (notFound upperSym)
      | Some stockInfo \<Rightarrow>
          Inr [SetData (Some (withSymbol upperSym stockInfo)),
               SetHistory (generatePriceHistory zone (shift 1 rnd) now upperSym
                             (Quote.price stockInfo * 0.85) 90)])"

definition fetchData :: "zone \<Rightarrow> random \<Rightarrow> Date \<Rightarrow> string \<Rightarrow> action list" where
  "fetchData zone rnd now sym' =
     (if sym' = [] then []
      else [SetLoading True, SetError None]
           @ (case tryBlock zone rnd now sym' of
                Inr acts \<Rightarrow> acts
              | Inl message \<Rightarrow> [SetError (Some message), SetData None, SetHistory []])
           @ [SetLoading False])"

section \<open>Chart view: \<^verbatim>\<open>filteredData\<close>\<close>

text \<open>
  \<^verbatim>\<open>frames[timeframe]\<close> reads an own key of the literal, or a member the literal inherits
  from \<^verbatim>\<open>Object.prototype\<close> (a function or an object, truthy and not a number), or
  nothing.
\<close>

datatype jsval = Undefined | Number int | Inherited

definition objectPrototypeKeys :: "string list" where
  "objectPrototypeKeys =
     [''constructor'', ''__proto__'', ''hasOwnProperty'', ''isPrototypeOf'',
      ''propertyIsEnumerable'', ''toString'', ''toLocaleString'', ''valueOf'',
      ''__defineGetter__'', ''__defineSetter__'', ''__lookupGetter__'', ''__lookupSetter__'']"

definition frames :: "string \<Rightarrow> jsval" where
  "frames timeframe =
     (case map_of [(''1W'', 5), (''1M'', 22), (''3M'', 66)] timeframe of
        Some n \<Rightarrow> Number n
      | None \<Rightarrow> if timeframe \<in> set objectPrototypeKeys then Inherited else Undefined)"

text \<open>\<^verbatim>\<open>v || history.length\<close>: \<open>undefined\<close> and \<open>0\<close> are falsy.\<close>

definition orLength :: "jsval \<Rightarrow> nat \<Rightarrow> jsval" where
  "orLength v len =
     (case v of
        Undefined \<Rightarrow> Number (int len)
      | Number n \<Rightarrow> if n = 0 then Number (int len) else Number n
      | Inherited \<Rightarrow> Inherited)"

text \<open>
  \<^verbatim>\<open>xs.slice(start)\<close>: a negative start counts from the end and stops at the front, a
  start beyond the end gives the empty array.
\<close>

definition slice :: "'a list \<Rightarrow> int \<Rightarrow> 'a list" where
  "slice xs start =
     (let len = int (length xs);
          k = (if start < 0 then max (len + start) 0 else min start len)
      in drop (nat k) xs)"

text \<open>\<^verbatim>\<open>-count\<close> of a function or an object is NaN, which \<^verbatim>\<open>slice\<close> reads as 0.\<close>

definition filteredData :: "'a list \<Rightarrow> string \<Rightarrow> 'a list" where
  "filteredData history' timeframe =
     (case orLength (frames timeframe) (length history') of
        Number count' \<Rightarrow> slice history' (- count')
      | Inherited \<Rightarrow> slice history' 0
      | Undefined \<Rightarrow> slice history' 0)"

section \<open>Table view: \<^verbatim>\<open>processedStocks\<close>\<close>

datatype SortKey = SortPrice | SortChangePercent | SortMarketCap | SortPe

datatype SortDir = Asc | Desc

text \<open>The value \<^verbatim>\<open>a[sortKey]\<close>: a number, or for \<^verbatim>\<open>marketCap\<close> a string.\<close>

datatype field = Num real | Str string

fun fieldOf :: "Stock \<Rightarrow> SortKey \<Rightarrow> field" where
  "fieldOf a SortPrice = Num (Quote.price a)"
| "fieldOf a SortChangePercent = Num (changePercent a)"
| "fieldOf a SortMarketCap = Str (marketCap a)"
| "fieldOf a SortPe = Num (pe a)"

text \<open>
  \<^verbatim>\<open>parseFloat\<close>: white space, a sign, digits with at most one point, and an exponent if
  digits follow its letter; the rest of the string is ignored. No digit at all gives NaN,
  here \<open>None\<close>. (The literal \<^verbatim>\<open>Infinity\<close> is not a real number and is read as NaN too.)
\<close>

definition isWhite :: "char \<Rightarrow> bool" where
  "isWhite c = (c \<in> set [CHR '' '', CHR 0x09, CHR 0x0A, CHR 0x0B, CHR 0x0C, CHR 0x0D])"

definition isDigit :: "char \<Rightarrow> bool" where
  "isDigit c = (c \<in> set ''0123456789'')"

definition digitVal :: "char \<Rightarrow> nat" where
  "digitVal c = (case map_of (zip ''0123456789'' [0, 1, 2, 3, 4, 5, 6, 7, 8, 9]) c of
                   Some n \<Rightarrow> n | None \<Rightarrow> 0)"

definition natOfDigits :: "string \<Rightarrow> nat" where
  "natOfDigits ds = foldl (\<lambda>n c. 10 * n + digitVal c) 0 ds"

definition exponentOf :: "string \<Rightarrow> int" where
  "exponentOf r =
     (case r of
        [] \<Rightarrow> 0
      | c # r1 \<Rightarrow>
          if c = CHR ''e'' \<or> c = CHR ''E'' then
            (case r1 of
               [] \<Rightarrow> 0
             | d # r2 \<Rightarrow>
                 if d = CHR ''-'' then
                   (if takeWhile isDigit r2 = [] then 0 else - int (natOfDigits (takeWhile isDigit r2)))
                 else if d = CHR ''+'' then int (natOfDigits (takeWhile isDigit r2))
                 else int (natOfDigits (takeWhile isDigit r1)))
          else 0)"

definition scale10 :: "real \<Rightarrow> int \<Rightarrow> real" where
  "scale10 x e = (if 0 \<le> e then x * 10 ^ nat e else x / 10 ^ nat (- e))"

definition parseFloat :: "string \<Rightarrow> real option" where
  "parseFloat s =
     (let s1 = dropWhile isWhite s;
          neg = (s1 \<noteq> [] \<and> hd s1 = CHR ''-'');
          s2 = (if s1 \<noteq> [] \<and> (hd s1 = CHR ''-'' \<or> hd s1 = CHR ''+'') then tl s1 else s1);
          ip = takeWhile isDigit s2;
          r1 = dropWhile isDigit s2;
          point = (r1 \<noteq> [] \<and> hd r1 = CHR ''.'');
          fp = (if point then takeWhile isDigit (tl r1) else []);
          r2 = (if point then dropWhile isDigit (tl r1) else r1);
          m = real (natOfDigits (ip @ fp)) / 10 ^ length fp
      in if ip = [] \<and> fp = [] then None
         else Some (scale10 (if neg then - m else m) (exponentOf r2)))"

text \<open>\<^verbatim>\<open>parseNumeric\<close>, lines 387 to 394; a product with NaN is NaN.\<close>

definition parseNumeric :: "field \<Rightarrow> real option" where
  "parseNumeric val =
     (case val of
        Num n \<Rightarrow> Some n
      | Str s \<Rightarrow>
          (let v = parseFloat s in
           if endsWith s ''T'' then map_option (\<lambda>x. x * 10 ^ 12) v
           else if endsWith s ''B'' then map_option (\<lambda>x. x * 10 ^ 9) v
           else if endsWith s ''M'' then map_option (\<lambda>x. x * 10 ^ 6) v
           else v))"

text \<open>
  The comparator of line 396. \<^verbatim>\<open>sortDir === "asc"\<close> picks \<open>av - bv\<close>, anything else
  \<open>bv - av\<close>; a NaN result counts as 0 in \<^verbatim>\<open>Array.prototype.sort\<close>.
\<close>

definition compareStocks :: "SortKey \<Rightarrow> SortDir \<Rightarrow> Stock \<Rightarrow> Stock \<Rightarrow> real" where
  "compareStocks sortKey sortDir a b =
     (case (parseNumeric (fieldOf a sortKey), parseNumeric (fieldOf b sortKey)) of
        (Some av, Some bv) \<Rightarrow> (if sortDir = Asc then av - bv else bv - av)
      | _ \<Rightarrow> 0)"

text \<open>
  \<^verbatim>\<open>Array.prototype.sort\<close> with a comparator is stable: elements the comparator does not
  separate keep their order. Insertion from the right, each element going before the
  first one it does not follow, computes that order.
\<close>

fun insertBy :: "('a \<Rightarrow> 'a \<Rightarrow> real) \<Rightarrow> 'a \<Rightarrow> 'a list \<Rightarrow> 'a list" where
  "insertBy cmp x [] = [x]"
| "insertBy cmp x (y # ys) = (if cmp x y \<le> 0 then x # y # ys else y # insertBy cmp x ys)"

definition sortBy :: "('a \<Rightarrow> 'a \<Rightarrow> real) \<Rightarrow> 'a list \<Rightarrow> 'a list" where
  "sortBy cmp xs = foldr (insertBy cmp) xs []"

definition allStocks :: "Stock list" where
  "allStocks = map (\<lambda>(k, v). withSymbol k v) MOCK_STOCKS"

definition textFiltered :: "string \<Rightarrow> Stock list \<Rightarrow> Stock list" where
  "textFiltered filter' stocks =
     (if filter' \<noteq> [] then
        filter (\<lambda>s. includes' (toLowerCase (symbol s)) (toLowerCase filter')
                  \<or> includes' (toLowerCase (name s)) (toLowerCase filter')) stocks
      else stocks)"

definition sectorFiltered :: "string \<Rightarrow> Stock list \<Rightarrow> Stock list" where
  "sectorFiltered sectorFilter stocks =
     (if sectorFilter \<noteq> ''All'' then filter (\<lambda>s. sector s = sectorFilter) stocks else stocks)"

definition processedStocks :: "string \<Rightarrow> string \<Rightarrow> SortKey \<Rightarrow> SortDir \<Rightarrow> Stock list" where
  "processedStocks filter' sectorFilter sortKey sortDir =
     sortBy (compareStocks sortKey sortDir)
       (sectorFiltered sectorFilter (textFiltered filter' allStocks))"

section \<open>Fixed inputs of the worked examples\<close>

text \<open>
  Three zones: one with no skipped day; Pacific/Apia, which skipped Friday 30 December 2011
  (day 15338); and Asia/Manila, which skipped Tuesday 31 December 1844 (day \<open>- 45656\<close>).
\<close>

definition regular :: zone where
  "regular d = False"



text \<open>
  Three random sources: every draw the same \<open>u\<close>; every draw one half; and the second
  draw 0.99, the others 0.
\<close>

definition steady :: "real \<Rightarrow> random" where
  "steady u k = u"

definition halves :: random where
  "halves k = 1 / 2"

definition openHigh :: random where
  "openHigh k = (if k = 1 then 99 / 100 else 0)"

definition idle :: HookState where
  "idle = \<lparr> data = None, history = [], loading = False, error = None \<rparr>"

section \<open>Facts about the generator loop\<close>

declare historyLoop.simps [simp del]
declare digits.simps [simp del]

lemma historyLoop_done: "i < 0 \<Longrightarrow> historyLoop zone rnd now p i = []"
  by (subst historyLoop.simps) simp

lemma historyLoop_skip:
  "0 \<le> i \<Longrightarrow> getDay (dateBack zone now i) = 0 \<or> getDay (dateBack zone now i) = 6 \<Longrightarrow>
   historyLoop zone rnd now p i = historyLoop zone rnd now p (i - 1)"
  by (subst historyLoop.simps) simp

lemma historyLoop_keep:
  "0 \<le> i \<Longrightarrow> getDay (dateBack zone now i) \<noteq> 0 \<Longrightarrow> getDay (dateBack zone now i) \<noteq> 6 \<Longrightarrow>
   historyLoop zone rnd now p i =
     \<lparr> day = dateBack zone now i,
       date = toLocaleDateString (dateBack zone now i),
       price = toFixed2 (p * (1 + dailyReturn (rnd 0))),
       open' = toFixed2 (openOf (p * (1 + dailyReturn (rnd 0))) (rnd 1)),
       high = toFixed2 (highOf (p * (1 + dailyReturn (rnd 0))) (rnd 2)),
       low = toFixed2 (lowOf (p * (1 + dailyReturn (rnd 0))) (rnd 3)),
       volume = volumeOf (rnd 4) \<rparr>
     # historyLoop zone (shift 5 rnd) now (p * (1 + dailyReturn (rnd 0))) (i - 1)"
  by (subst historyLoop.simps) simp

lemmas historyLoop_unfold = historyLoop_done historyLoop_skip historyLoop_keep


lemma dateBack_regular: "dateBack regular now i = now - i"
  by (simp add: dateBack_def regular_def)









lemma getDay_sub: "getDay (now - j) = (getDay now - j) mod 7"
  unfolding getDay_def by (simp add: mod_simps algebra_simps)

lemma getDay_add: "getDay (now + j) = (getDay now + j) mod 7"
  unfolding getDay_def by (simp add: mod_simps algebra_simps)

lemma getDay_range:
  "getDay now = 0 \<or> getDay now = 1 \<or> getDay now = 2 \<or> getDay now = 3
   \<or> getDay now = 4 \<or> getDay now = 5 \<or> getDay now = 6"
  unfolding getDay_def by presburger


text \<open>
  In any zone: a request for a Monday, Tuesday, Wednesday or Thursday lands on a weekday,
  and eight days in a row hold each of them.
\<close>

lemma midweek_kept:
  "(if getDay (now - i) = 1 \<or> getDay (now - i) = 2 \<or> getDay (now - i) = 3 \<or> getDay (now - i) = 4
    then 1 else 0)
   \<le> (if getDay (dateBack zone now i) = 0 \<or> getDay (dateBack zone now i) = 6 then 0 else (1::nat))"
  using getDay_range [of "now - i"]
  by (elim disjE) (simp_all add: dateBack_def getDay_add)



text \<open>A window that holds a kept day gives an entry; any four days in a row hold one.\<close>

lemma historyLoop_nonempty_at:
  "0 \<le> j \<Longrightarrow> j \<le> i \<Longrightarrow> getDay (dateBack zone now j) \<noteq> 0 \<Longrightarrow>
   getDay (dateBack zone now j) \<noteq> 6 \<Longrightarrow> historyLoop zone rnd now p i \<noteq> []"
proof (induction zone rnd now p i rule: historyLoop.induct)
  case (1 zone rnd now p i)
  from "1.prems" have nonneg: "0 \<le> i" by simp
  show ?case
  proof (cases "getDay (dateBack zone now i) = 0 \<or> getDay (dateBack zone now i) = 6")
    case True
    with "1.prems" have "j \<noteq> i" by auto
    with "1.prems" have "j \<le> i - 1" by simp
    with "1.IH"(1) [OF nonneg True] "1.prems" nonneg True show ?thesis
      by (simp add: historyLoop_skip)
  next
    case False
    with nonneg show ?thesis by (simp add: historyLoop_keep)
  qed
qed

lemma midweek_in_four:
  "(getDay (dateBack zone now 0) \<noteq> 0 \<and> getDay (dateBack zone now 0) \<noteq> 6)
   \<or> (getDay (dateBack zone now 1) \<noteq> 0 \<and> getDay (dateBack zone now 1) \<noteq> 6)
   \<or> (getDay (dateBack zone now 2) \<noteq> 0 \<and> getDay (dateBack zone now 2) \<noteq> 6)
   \<or> (getDay (dateBack zone now 3) \<noteq> 0 \<and> getDay (dateBack zone now 3) \<noteq> 6)"
proof -
  have "(1::nat) \<le>
      (if getDay (now - 0) = 1 \<or> getDay (now - 0) = 2 \<or> getDay (now - 0) = 3 \<or> getDay (now - 0) = 4
       then 1 else 0)
    + ((if getDay (now - 1) = 1 \<or> getDay (now - 1) = 2 \<or> getDay (now - 1) = 3 \<or> getDay (now - 1) = 4
        then 1 else 0)
    + ((if getDay (now - 2) = 1 \<or> getDay (now - 2) = 2 \<or> getDay (now - 2) = 3 \<or> getDay (now - 2) = 4
        then 1 else 0)
    + (if getDay (now - 3) = 1 \<or> getDay (now - 3) = 2 \<or> getDay (now - 3) = 3 \<or> getDay (now - 3) = 4
       then 1 else 0)))"
    using getDay_range [of now] by (elim disjE) (simp_all add: getDay_sub)
  with midweek_kept [of now 0 zone] midweek_kept [of now 1 zone] midweek_kept [of now 2 zone]
    midweek_kept [of now 3 zone]
  have "(1::nat) \<le>
      (if getDay (dateBack zone now 0) = 0 \<or> getDay (dateBack zone now 0) = 6 then 0 else 1)
    + ((if getDay (dateBack zone now 1) = 0 \<or> getDay (dateBack zone now 1) = 6 then 0 else 1)
    + ((if getDay (dateBack zone now 2) = 0 \<or> getDay (dateBack zone now 2) = 6 then 0 else 1)
    + (if getDay (dateBack zone now 3) = 0 \<or> getDay (dateBack zone now 3) = 6 then 0 else 1)))"
    by linarith
  then show ?thesis by (auto split: if_splits)
qed

lemma historyLoop_nonempty: "3 \<le> i \<Longrightarrow> historyLoop zone rnd now p i \<noteq> []"
  using midweek_in_four [of zone now]
    historyLoop_nonempty_at [of 0 i zone now rnd p]
    historyLoop_nonempty_at [of 1 i zone now rnd p]
    historyLoop_nonempty_at [of 2 i zone now rnd p]
    historyLoop_nonempty_at [of 3 i zone now rnd p]
  by auto

section \<open>Facts about the generated bars\<close>

lemma unit_draws_shift: "unit_draws rnd \<Longrightarrow> unit_draws (shift n rnd)"
  by (simp add: unit_draws_def shift_def)

lemma unit_draws_halves: "unit_draws halves"
  by (simp add: unit_draws_def halves_def)

lemma unit_draws_openHigh: "unit_draws openHigh"
  by (simp add: unit_draws_def openHigh_def)

lemma unit_draws_steady: "0 \<le> u \<Longrightarrow> u < 1 \<Longrightarrow> unit_draws (steady u)"
  by (simp add: unit_draws_def steady_def)

lemma shift_steady: "shift n (steady u) = steady u"
  by (simp add: shift_def steady_def fun_eq_iff)

lemma volumeOf_range:
  assumes "0 \<le> u" "u < 1"
  shows "20000000 \<le> volumeOf u \<and> volumeOf u \<le> 99999999"
proof -
  have "20000000 \<le> u * 80000000 + 20000000" using assms by simp
  then have lo: "20000000 \<le> volumeOf u" unfolding volumeOf_def by linarith
  have "u * 80000000 + 20000000 < 100000000" using assms by simp
  then have "volumeOf u < 100000000" unfolding volumeOf_def by linarith
  with lo show ?thesis by simp
qed

lemma volumeOf_hit: "volumeOf ((of_int v - 20000000) / 80000000) = v"
proof -
  have "(of_int v - 20000000) / 80000000 * 80000000 + 20000000 = (of_int v :: real)"
    by (simp add: field_simps)
  then show ?thesis
    unfolding volumeOf_def by (simp only: floor_of_int)
qed

text \<open>The draws that give the volume \<open>v\<close> are an interval of length \<open>1 / 80000000\<close>.\<close>

lemma volumeOf_interval:
  "(volumeOf u = v) =
     ((of_int v - 20000000) / 80000000 \<le> u \<and> u < (of_int v + 1 - 20000000) / 80000000)"
proof -
  have "(volumeOf u = v) = (of_int v \<le> u * 80000000 + 20000000
      \<and> u * 80000000 + 20000000 < of_int v + 1)"
    unfolding volumeOf_def by (rule floor_eq_iff)
  also have "\<dots> = ((of_int v - 20000000) / 80000000 \<le> u
      \<and> u < (of_int v + 1 - 20000000) / 80000000)"
    by (simp add: field_simps)
  finally show ?thesis .
qed

text \<open>With the same draw every time, every bar has the volume of that draw.\<close>

lemma historyLoop_steady:
  "b \<in> set (historyLoop zone (steady u) now p i) \<Longrightarrow> volume b = volumeOf u"
proof (induction zone "steady u" now p i rule: historyLoop.induct)
  case (1 zone now p i)
  show ?case
  proof (cases "0 \<le> i")
    case False
    with "1.prems" show ?thesis by (simp add: historyLoop_done)
  next
    case nonneg: True
    show ?thesis
    proof (cases "getDay (dateBack zone now i) = 0 \<or> getDay (dateBack zone now i) = 6")
      case True
      with nonneg "1.prems" "1.hyps"(1) show ?thesis by (simp add: historyLoop_skip)
    next
      case False
      with nonneg "1.prems" "1.hyps"(2) show ?thesis
        by (auto simp: historyLoop_keep shift_steady steady_def)
    qed
  qed
qed

lemma historyLoop_volume:
  "unit_draws rnd \<Longrightarrow> b \<in> set (historyLoop zone rnd now p i) \<Longrightarrow>
   20000000 \<le> volume b \<and> volume b \<le> 99999999"
proof (induction zone rnd now p i rule: historyLoop.induct)
  case (1 zone rnd now p i)
  show ?case
  proof (cases "0 \<le> i")
    case False
    with "1.prems" show ?thesis by (simp add: historyLoop_done)
  next
    case nonneg: True
    show ?thesis
    proof (cases "getDay (dateBack zone now i) = 0 \<or> getDay (dateBack zone now i) = 6")
      case True
      with nonneg "1.prems" "1.IH"(1) show ?thesis by (simp add: historyLoop_skip)
    next
      case False
      have u: "0 \<le> rnd 4" "rnd 4 < 1" using "1.prems"(1) by (simp_all add: unit_draws_def)
      from nonneg False "1.prems"(2)
      consider "volume b = volumeOf (rnd 4)"
        | "b \<in> set (historyLoop zone (shift 5 rnd) now (p * (1 + dailyReturn (rnd 0))) (i - 1))"
        by (auto simp: historyLoop_keep)
      then show ?thesis
      proof cases
        case 1
        with volumeOf_range [OF u] show ?thesis by simp
      next
        case 2
        with "1.IH"(2) [OF nonneg False unit_draws_shift [OF "1.prems"(1)]] show ?thesis by simp
      qed
    qed
  qed
qed

text \<open>Rounding to two decimals keeps the order of its arguments.\<close>

lemma toFixed2_mono: "x \<le> y \<Longrightarrow> toFixed2 x \<le> toFixed2 y"
proof -
  assume xy: "x \<le> y"
  define r where "r z = (if z < 0 then - (of_int \<lfloor>(- z) * 100 + 1 / 2\<rfloor> / 100)
      else of_int \<lfloor>z * 100 + 1 / 2\<rfloor> / (100::real))" for z :: real
  have r_mono: "r a \<le> r b" if "a \<le> b" for a b
  proof (cases "b < 0")
    case True
    with that have "\<lfloor>(- b) * 100 + 1 / 2\<rfloor> \<le> \<lfloor>(- a) * 100 + 1 / 2\<rfloor>"
      by (intro floor_mono) simp
    with True that show ?thesis by (simp add: r_def divide_right_mono)
  next
    case bpos: False
    show ?thesis
    proof (cases "a < 0")
      case True
      then have "r a \<le> 0" by (simp add: r_def)
      moreover have "0 \<le> r b" using bpos by (simp add: r_def)
      ultimately show ?thesis by simp
    next
      case False
      from that have "\<lfloor>a * 100 + 1 / 2\<rfloor> \<le> \<lfloor>b * 100 + 1 / 2\<rfloor>"
        by (intro floor_mono) simp
      with False bpos show ?thesis by (simp add: r_def divide_right_mono)
    qed
  qed
  have r_upper: "r z \<le> 10 ^ 21" if "z < 10 ^ 21" for z
  proof (cases "z < 0")
    case True
    then have "r z \<le> 0" by (simp add: r_def)
    then show ?thesis by simp
  next
    case False
    have "z * 100 + 1 / 2 < of_int (10 ^ 23 + 1)" using that by simp
    then have "\<lfloor>z * 100 + 1 / 2\<rfloor> < 10 ^ 23 + 1" by (simp only: floor_less_iff)
    then have "\<lfloor>z * 100 + 1 / 2\<rfloor> \<le> 10 ^ 23" by simp
    then have "(of_int \<lfloor>z * 100 + 1 / 2\<rfloor> :: real) \<le> of_int (10 ^ 23)"
      by (simp only: of_int_le_iff)
    with False show ?thesis by (simp add: r_def)
  qed
  have r_lower: "- (10 ^ 21) \<le> r z" if "- (10 ^ 21) < z" for z
  proof (cases "z < 0")
    case False
    then have "0 \<le> r z" by (simp add: r_def)
    then show ?thesis by simp
  next
    case True
    have "(- z) * 100 + 1 / 2 < of_int (10 ^ 23 + 1)" using that by simp
    then have "\<lfloor>(- z) * 100 + 1 / 2\<rfloor> < 10 ^ 23 + 1" by (simp only: floor_less_iff)
    then have "\<lfloor>(- z) * 100 + 1 / 2\<rfloor> \<le> 10 ^ 23" by simp
    then have "(of_int \<lfloor>(- z) * 100 + 1 / 2\<rfloor> :: real) \<le> of_int (10 ^ 23)"
      by (simp only: of_int_le_iff)
    with True show ?thesis by (simp add: r_def)
  qed
  have tf: "toFixed2 z = (if 10 ^ 21 \<le> \<bar>z\<bar> then z else r z)" for z
    by (simp add: toFixed2_def r_def)
  show ?thesis
  proof (cases "10 ^ 21 \<le> \<bar>x\<bar>")
    case bigx: True
    show ?thesis
    proof (cases "10 ^ 21 \<le> \<bar>y\<bar>")
      case True
      with bigx xy show ?thesis by (simp add: tf)
    next
      case False
      with bigx xy have "x \<le> - (10 ^ 21)" "- (10 ^ 21) < y"
        by (auto simp: abs_if split: if_splits)
      with r_lower [of y] bigx False show ?thesis by (simp add: tf)
    qed
  next
    case smallx: False
    show ?thesis
    proof (cases "10 ^ 21 \<le> \<bar>y\<bar>")
      case True
      with smallx xy have "10 ^ 21 \<le> y" "x < 10 ^ 21"
        by (auto simp: abs_if split: if_splits)
      with r_upper [of x] smallx True show ?thesis by (simp add: tf)
    next
      case False
      with smallx r_mono [OF xy] show ?thesis by (simp add: tf)
    qed
  qed
qed

text \<open>The running price stays non-negative, and then low and high enclose it.\<close>

lemma dailyReturn_factor: "0 \<le> u \<Longrightarrow> 0 \<le> p \<Longrightarrow> 0 \<le> p * (1 + dailyReturn u)"
proof -
  assume "0 \<le> u" "0 \<le> p"
  then have "0 \<le> 1 + dailyReturn u" by (simp add: dailyReturn_def field_simps)
  with \<open>0 \<le> p\<close> show ?thesis by (rule mult_nonneg_nonneg)
qed

lemma low_price_high:
  "0 \<le> p \<Longrightarrow> 0 \<le> u \<Longrightarrow> 0 \<le> v \<Longrightarrow> lowOf p v \<le> p \<and> p \<le> highOf p u"
  by (simp add: lowOf_def highOf_def algebra_simps)

lemma historyLoop_bar:
  "unit_draws rnd \<Longrightarrow> 0 \<le> p \<Longrightarrow> b \<in> set (historyLoop zone rnd now p i) \<Longrightarrow>
   \<exists>q u v w. 0 \<le> q \<and> lowOf q w \<le> q \<and> q \<le> highOf q v
     \<and> price b = toFixed2 q \<and> open' b = toFixed2 (openOf q u)
     \<and> high b = toFixed2 (highOf q v) \<and> low b = toFixed2 (lowOf q w)"
proof (induction zone rnd now p i rule: historyLoop.induct)
  case (1 zone rnd now p i)
  show ?case
  proof (cases "0 \<le> i")
    case False
    with "1.prems" show ?thesis by (simp add: historyLoop_done)
  next
    case nonneg: True
    show ?thesis
    proof (cases "getDay (dateBack zone now i) = 0 \<or> getDay (dateBack zone now i) = 6")
      case True
      with nonneg "1.prems" "1.IH"(1) show ?thesis by (simp add: historyLoop_skip)
    next
      case False
      let ?q = "p * (1 + dailyReturn (rnd 0))"
      have u: "0 \<le> rnd 0" "0 \<le> rnd 2" "0 \<le> rnd 3"
        using "1.prems"(1) by (simp_all add: unit_draws_def)
      have q: "0 \<le> ?q" using u(1) "1.prems"(2) by (rule dailyReturn_factor)
      from nonneg False "1.prems"(3)
      consider "price b = toFixed2 ?q \<and> open' b = toFixed2 (openOf ?q (rnd 1))
          \<and> high b = toFixed2 (highOf ?q (rnd 2)) \<and> low b = toFixed2 (lowOf ?q (rnd 3))"
        | "b \<in> set (historyLoop zone (shift 5 rnd) now ?q (i - 1))"
        by (auto simp: historyLoop_keep)
      then show ?thesis
      proof cases
        case 1
        with q low_price_high [OF q u(2) u(3)] show ?thesis by blast
      next
        case 2
        with "1.IH"(2) [OF nonneg False unit_draws_shift [OF "1.prems"(1)] q] show ?thesis
          by simp
      qed
    qed
  qed
qed

text \<open>Every price of the store is positive.\<close>

lemma store_price_positive: "stockInfoOf k = Some q \<Longrightarrow> 0 < Quote.price q"
proof -
  assume "stockInfoOf k = Some q"
  then have "(k, q) \<in> set MOCK_STOCKS"
    unfolding stockInfoOf_def by (rule map_of_SomeD)
  moreover have "\<forall>e \<in> set MOCK_STOCKS. 0 < Quote.price (snd e)"
    by (simp add: MOCK_STOCKS_def)
  ultimately show ?thesis by fastforce
qed

text \<open>
  The examples. A Thursday (day 0) with no earlier day in the window; a Monday (day 4)
  with seven; Sunday 1 January 2012 in Apia with seven; 3 January 1845 in Manila with
  three.
\<close>

lemma thursday_positive:
  "map price (generatePriceHistory regular halves 0 ''AAPL'' 100 0) = [100.12]"
  "map high (generatePriceHistory regular halves 0 ''AAPL'' 100 0) = [101.12]"
  "map low (generatePriceHistory regular halves 0 ''AAPL'' 100 0) = [99.12]"
  "map volume (generatePriceHistory regular halves 0 ''AAPL'' 100 0) = [60000000]"
  by (simp_all add: generatePriceHistory_def historyLoop_unfold dateBack_regular getDay_def
        halves_def highOf_def lowOf_def dailyReturn_def toFixed2_def volumeOf_def)





section \<open>Facts about the lookup\<close>

lemma toUpperCase_Nil: "toUpperCase s = [] \<longleftrightarrow> s = []"
  by (simp add: toUpperCase_def)

lemma stockInfoOf_Nil: "stockInfoOf [] = None"
  by (simp add: stockInfoOf_def MOCK_STOCKS_def)

lemma run_success:
  "run st [SetLoading True, SetError None, SetData d, SetHistory h, SetLoading False]
     = st\<lparr>data := d, history := h, loading := False, error := None\<rparr>"
  by (simp add: run_def)

lemma run_failure:
  "run st [SetLoading True, SetError None, SetError e, SetData None, SetHistory [],
           SetLoading False]
     = st\<lparr>data := None, history := [], loading := False, error := e\<rparr>"
  by (simp add: run_def)

lemma fetchData_found:
  assumes "stockInfoOf (toUpperCase sym') = Some q"
  shows "fetchData zone rnd now sym' =
    [SetLoading True, SetError None,
     SetData (Some (withSymbol (toUpperCase sym') q)),
     SetHistory (generatePriceHistory zone (shift 1 rnd) now (toUpperCase sym')
                   (Quote.price q * 0.85) 90),
     SetLoading False]"
proof -
  from assms have "toUpperCase sym' \<noteq> []" using stockInfoOf_Nil by auto
  then have "sym' \<noteq> []" by (simp add: toUpperCase_Nil)
  with assms show ?thesis by (simp add: fetchData_def tryBlock_def Let_def)
qed

lemma fetchData_missing:
  assumes "sym' \<noteq> []" "stockInfoOf (toUpperCase sym') = None"
  shows "fetchData zone rnd now sym' =
    [SetLoading True, SetError None,
     SetError (Some (notFound (toUpperCase sym'))), SetData None, SetHistory [],
     SetLoading False]"
  using assms by (simp add: fetchData_def tryBlock_def Let_def)

lemma aapl: "toUpperCase ''aapl'' = ''AAPL''"
  by (simp add: toUpperCase_def lowerLetters_def upperLetters_def)

lemma aapl_info: "stockInfoOf ''AAPL'' =
  Some \<lparr> name = ''Apple Inc.'', price = 189.3, change = 1.24, changePercent = 0.66,
        marketCap = ''2.94T'', pe = 29.4, volume = ''58.2M'', sector = ''Technology'' \<rparr>"
  by (simp add: stockInfoOf_def MOCK_STOCKS_def)

lemma zzzz: "toUpperCase ''zzzz'' = ''ZZZZ''"
  by (simp add: toUpperCase_def lowerLetters_def upperLetters_def)

lemma zzzz_info: "stockInfoOf ''ZZZZ'' = None"
  by (simp add: stockInfoOf_def MOCK_STOCKS_def)

text \<open>An upper-cased symbol never names a member inherited from \<^verbatim>\<open>Object.prototype\<close>.\<close>

lemma upperChar_not_o_e:
  "(case map_of (zip lowerLetters upperLetters) x of Some u \<Rightarrow> u | None \<Rightarrow> x) \<noteq> CHR ''o''"
  "(case map_of (zip lowerLetters upperLetters) x of Some u \<Rightarrow> u | None \<Rightarrow> x) \<noteq> CHR ''e''"
  by (simp_all add: lowerLetters_def upperLetters_def)

lemma toUpperCase_not_o_e:
  "CHR ''o'' \<notin> set (toUpperCase s)" "CHR ''e'' \<notin> set (toUpperCase s)"
  unfolding toUpperCase_def using upperChar_not_o_e by (metis (no_types, lifting) imageE list.set_map)+

lemma inherited_o_e:
  "k \<in> set objectPrototypeKeys \<Longrightarrow> CHR ''o'' \<in> set k \<or> CHR ''e'' \<in> set k"
  by (auto simp: objectPrototypeKeys_def)

lemma toUpperCase_not_inherited: "toUpperCase s \<notin> set objectPrototypeKeys"
  using toUpperCase_not_o_e inherited_o_e by blast

section \<open>Facts about the chart slice\<close>

lemma slice_zero: "slice xs 0 = xs"
  by (simp add: slice_def)

lemma slice_last: "0 < n \<Longrightarrow> slice xs (- int n) = drop (length xs - n) xs"
  by (auto simp: slice_def Let_def max_def nat_diff_distrib' intro: arg_cong [where f = "\<lambda>k. drop k xs"])

lemma slice_all: "slice xs (- int (length xs)) = xs"
  by (simp add: slice_def)

lemma frames_own:
  "frames ''1W'' = Number 5" "frames ''1M'' = Number 22" "frames ''3M'' = Number 66"
  by (simp_all add: frames_def)

lemma frames_other:
  "timeframe \<noteq> ''1W'' \<Longrightarrow> timeframe \<noteq> ''1M'' \<Longrightarrow> timeframe \<noteq> ''3M'' \<Longrightarrow>
   frames timeframe = Inherited \<or> frames timeframe = Undefined"
  by (simp add: frames_def)

lemma filteredData_own:
  "filteredData h ''1W'' = drop (length h - 5) h"
  "filteredData h ''1M'' = drop (length h - 22) h"
  "filteredData h ''3M'' = drop (length h - 66) h"
  using slice_last [of 5 h] slice_last [of 22 h] slice_last [of 66 h]
  by (simp_all add: filteredData_def frames_own orLength_def)

lemma filteredData_other:
  assumes "timeframe \<noteq> ''1W''" "timeframe \<noteq> ''1M''" "timeframe \<noteq> ''3M''"
  shows "filteredData h timeframe = h"
  using frames_other [OF assms]
  by (auto simp: filteredData_def orLength_def slice_zero slice_all)

lemma frames_toString: "frames ''toString'' = Inherited"
  by (simp add: frames_def objectPrototypeKeys_def)

section \<open>Facts about the table pipeline\<close>

lemma mset_insertBy: "mset (insertBy cmp x xs) = add_mset x (mset xs)"
  by (induction xs) simp_all

lemma mset_sortBy: "mset (sortBy cmp xs) = mset xs"
  by (induction xs) (simp_all add: sortBy_def mset_insertBy)



lemma length_sortBy: "length (sortBy cmp xs) = length xs"
  using mset_sortBy [of cmp xs, THEN arg_cong, of size] by simp












section \<open>Claims about the lookup\<close>

text \<open>
  Claim C1. For every symbol text whose upper-cased form is a key of \<^verbatim>\<open>MOCK_STOCKS\<close>, with
  quote \<open>q\<close>, the fetch ends with a snapshot whose \<open>symbol\<close> is the upper-cased input and
  whose other fields are those of \<open>q\<close>, with the history that the generator returns for
  base price \<open>q.price \<times> 0.85\<close> and 90 days, which is not empty, with no error and
  not loading; whatever the state before, the draws, the current date and the time zone.
\<close>

theorem lookup_found:
  "stockInfoOf (toUpperCase sym') = Some q \<Longrightarrow>
   (\<exists>d. data (run st (fetchData zone rnd now sym')) = Some d
      \<and> symbol d = toUpperCase sym'
      \<and> name d = name q \<and> Quote.price d = Quote.price q \<and> change d = change q
      \<and> changePercent d = changePercent q \<and> marketCap d = marketCap q \<and> pe d = pe q
      \<and> Quote.volume d = Quote.volume q \<and> sector d = sector q)
   \<and> history (run st (fetchData zone rnd now sym'))
       = generatePriceHistory zone (shift 1 rnd) now (toUpperCase sym') (Quote.price q * 0.85) 90
   \<and> history (run st (fetchData zone rnd now sym')) \<noteq> []
   \<and> error (run st (fetchData zone rnd now sym')) = None
   \<and> loading (run st (fetchData zone rnd now sym')) = False"
proof -
  assume q: "stockInfoOf (toUpperCase sym') = Some q"
  have "generatePriceHistory zone (shift 1 rnd) now (toUpperCase sym') (Quote.price q * 0.85) 90
      \<noteq> []"
    unfolding generatePriceHistory_def by (rule historyLoop_nonempty) simp
  then show ?thesis
    by (simp add: fetchData_found [OF q] run_success withSymbol_def)
qed

theorem lookup_found_witness:
  "stockInfoOf (toUpperCase ''aapl'') =
     Some \<lparr> name = ''Apple Inc.'', price = 189.3, change = 1.24, changePercent = 0.66,
        marketCap = ''2.94T'', pe = 29.4, volume = ''58.2M'', sector = ''Technology'' \<rparr>
   \<and> map_option symbol (data (run idle (fetchData regular halves 0 ''aapl''))) = Some ''AAPL''
   \<and> map_option Quote.price (data (run idle (fetchData regular halves 0 ''aapl''))) = Some 189.3
   \<and> history (run idle (fetchData regular halves 0 ''aapl'')) \<noteq> []
   \<and> error (run idle (fetchData regular halves 0 ''aapl'')) = None"
proof -
  have q: "stockInfoOf (toUpperCase ''aapl'') =
     Some \<lparr> name = ''Apple Inc.'', price = 189.3, change = 1.24, changePercent = 0.66,
        marketCap = ''2.94T'', pe = 29.4, volume = ''58.2M'', sector = ''Technology'' \<rparr>"
    by (simp only: aapl aapl_info)
  from lookup_found [OF q, of idle regular halves 0] q show ?thesis
    by (auto simp: aapl)
qed

text \<open>
  Claim C2. For every non-empty symbol text whose upper-cased form is no key of
  \<^verbatim>\<open>MOCK_STOCKS\<close>, the \<^verbatim>\<open>try\<close> block throws, and the fetch ends with the error message
  that quotes the upper-cased symbol and proposes AAPL, MSFT, GOOGL, TSLA and NVDA, each
  a key of the store, with no snapshot and an empty history, not loading.
\<close>

theorem lookup_missing:
  "sym' \<noteq> [] \<Longrightarrow> stockInfoOf (toUpperCase sym') = None \<Longrightarrow>
   tryBlock zone rnd now sym' = Inl (notFound (toUpperCase sym'))
   \<and> error (run st (fetchData zone rnd now sym'))
       = Some (''Symbol '' @ [CHR 0x22] @ toUpperCase sym' @ [CHR 0x22]
               @ '' not found. Try: '' @ ''AAPL'' @ '', '' @ ''MSFT'' @ '', '' @ ''GOOGL''
               @ '', '' @ ''TSLA'' @ '', '' @ ''NVDA'')
   \<and> data (run st (fetchData zone rnd now sym')) = None
   \<and> history (run st (fetchData zone rnd now sym')) = []
   \<and> loading (run st (fetchData zone rnd now sym')) = False
   \<and> stockInfoOf ''AAPL'' \<noteq> None \<and> stockInfoOf ''MSFT'' \<noteq> None
   \<and> stockInfoOf ''GOOGL'' \<noteq> None \<and> stockInfoOf ''TSLA'' \<noteq> None
   \<and> stockInfoOf ''NVDA'' \<noteq> None"
proof -
  assume a: "sym' \<noteq> []" "stockInfoOf (toUpperCase sym') = None"
  have "stockInfoOf ''AAPL'' \<noteq> None \<and> stockInfoOf ''MSFT'' \<noteq> None
   \<and> stockInfoOf ''GOOGL'' \<noteq> None \<and> stockInfoOf ''TSLA'' \<noteq> None
   \<and> stockInfoOf ''NVDA'' \<noteq> None"
    by (simp add: stockInfoOf_def MOCK_STOCKS_def)
  moreover have "tryBlock zone rnd now sym' = Inl (notFound (toUpperCase sym'))"
    using a by (simp add: tryBlock_def Let_def)
  ultimately show ?thesis
    by (simp add: fetchData_missing [OF a] run_failure notFound_def)
qed

theorem lookup_missing_witness:
  \<open>''zzzz'' \<noteq> [] \<and> stockInfoOf (toUpperCase ''zzzz'') = None
   \<and> error (run idle (fetchData regular halves 0 ''zzzz''))
       = Some ''Symbol "ZZZZ" not found. Try: AAPL, MSFT, GOOGL, TSLA, NVDA''
   \<and> data (run idle (fetchData regular halves 0 ''zzzz'')) = None
   \<and> history (run idle (fetchData regular halves 0 ''zzzz'')) = []\<close>
proof -
  have n: "''zzzz'' \<noteq> []" by simp
  have q: "stockInfoOf (toUpperCase ''zzzz'') = None" by (simp only: zzzz zzzz_info)
  from lookup_missing [OF n q, of regular halves 0 idle] q show ?thesis
    by (simp add: zzzz)
qed

text \<open>
  Claim C9. For the empty symbol text \<^verbatim>\<open>fetchData\<close> calls no setter: the state after the
  run is the state before it, in each of its fields \<open>loading\<close>, \<open>error\<close>, \<open>data\<close> and
  \<open>history\<close>.
\<close>

theorem lookup_empty:
  "fetchData zone rnd now [] = [] \<and> run st (fetchData zone rnd now []) = st
   \<and> loading (run st (fetchData zone rnd now [])) = loading st
   \<and> error (run st (fetchData zone rnd now [])) = error st
   \<and> data (run st (fetchData zone rnd now [])) = data st
   \<and> history (run st (fetchData zone rnd now [])) = history st"
  by (simp add: fetchData_def run_def)

section \<open>Claims about the chart slice\<close>

text \<open>
  Claim C3. For every history and every timeframe text the slice is the last \<open>N\<close> entries
  of the history in their order, \<open>N\<close> being 5 for \<^verbatim>\<open>1W\<close>, 22 for \<^verbatim>\<open>1M\<close>, 66 for \<^verbatim>\<open>3M\<close>
  and the length of the history for any other text; for \<^verbatim>\<open>1W\<close> it has
  \<open>min 5 (length history)\<close> entries and is a suffix of the history.
\<close>

theorem chart_projection:
  "filteredData h timeframe =
     drop (length h - (if timeframe = ''1W'' then 5 else if timeframe = ''1M'' then 22
                        else if timeframe = ''3M'' then 66 else length h)) h
   \<and> length (filteredData h ''1W'') = min 5 (length h)
   \<and> take (length h - 5) h @ filteredData h ''1W'' = h"
  by (simp add: filteredData_own filteredData_other)

theorem chart_projection_witness:
  "filteredData [1, 2, 3, 4, 5, 6, 7 :: nat] ''1W'' = [3, 4, 5, 6, 7]
   \<and> filteredData [1, 2, 3 :: nat] ''1W'' = [1, 2, 3]
   \<and> filteredData [1, 2, 3 :: nat] ''toString'' = [1, 2, 3]
   \<and> filteredData [1, 2, 3 :: nat] ''ALL'' = [1, 2, 3]"
  using chart_projection [of "[1, 2, 3, 4, 5, 6, 7 :: nat]" "''1W''"]
    chart_projection [of "[1, 2, 3 :: nat]" "''1W''"]
    chart_projection [of "[1, 2, 3 :: nat]" "''toString''"]
    chart_projection [of "[1, 2, 3 :: nat]" "''ALL''"]
  by simp

section \<open>Claims about the table pipeline\<close>



text \<open>
  Claim C8. With the empty text filter and the sector filter \<^verbatim>\<open>All\<close> the table holds every
  entry of the store, each once, whatever the sort key and direction: its row count is
  the number of symbols of the store, which is 10.
\<close>

theorem table_roundtrip:
  "mset (processedStocks [] ''All'' sortKey sortDir) = mset allStocks
   \<and> mset (map symbol (processedStocks [] ''All'' sortKey sortDir)) = mset (map fst MOCK_STOCKS)
   \<and> length (processedStocks [] ''All'' sortKey sortDir) = length MOCK_STOCKS
   \<and> length MOCK_STOCKS = 10
   \<and> distinct (map fst MOCK_STOCKS)"
proof -
  have m: "mset (processedStocks [] ''All'' sortKey sortDir) = mset allStocks"
    by (simp add: processedStocks_def mset_sortBy textFiltered_def sectorFiltered_def)
  have s: "map symbol allStocks = map fst MOCK_STOCKS"
    by (simp add: allStocks_def withSymbol_def case_prod_beta)
  have "mset (map symbol (processedStocks [] ''All'' sortKey sortDir)) = mset (map symbol allStocks)"
    using m by (metis mset_map)
  moreover have "length (processedStocks [] ''All'' sortKey sortDir) = length allStocks"
    using m by (metis size_mset)
  moreover have "length allStocks = length MOCK_STOCKS" by (simp add: allStocks_def)
  moreover have "length MOCK_STOCKS = 10" "distinct (map fst MOCK_STOCKS)"
    by (simp_all add: MOCK_STOCKS_def)
  ultimately show ?thesis using m s by simp
qed

theorem table_roundtrip_witness:
  "length (processedStocks [] ''All'' SortPe Asc) = 10
   \<and> set (map symbol (processedStocks [] ''All'' SortPe Asc)) =
       {''AAPL'', ''MSFT'', ''GOOGL'', ''AMZN'', ''TSLA'', ''META'', ''NVDA'', ''JPM'', ''BRK'', ''V''}"
proof -
  have "set (map symbol (processedStocks [] ''All'' SortPe Asc)) = set (map fst MOCK_STOCKS)"
    using table_roundtrip [of SortPe Asc] by (metis set_mset_mset)
  then show ?thesis
    using table_roundtrip [of SortPe Asc] by (simp add: MOCK_STOCKS_def)
qed

section \<open>Claims about the generator\<close>







text \<open>
  Claim C7, as the code has it. The volume of a generated bar is a uniform integer in
  \<open>[20,000,000, 99,999,999]\<close>. With draws in \<open>[0, 1)\<close> every generated bar has its volume
  in that range. For every integer \<open>v\<close> of the range and every window of three days or
  more there is a random source for which the generator returns bars, all of volume \<open>v\<close>.
  And the draws in \<open>[0, 1)\<close> that give a bar the volume \<open>v\<close> are those of an interval of
  length \<open>1 / 80,000,000\<close>, the same for every \<open>v\<close>: a uniform draw gives a uniform
  volume. The upper end 100,000,000 is excluded.
\<close>

theorem volume_range:
  "(unit_draws rnd \<longrightarrow>
      (\<forall>b \<in> set (generatePriceHistory zone rnd now symbol' basePrice days).
         20000000 \<le> volume b \<and> volume b \<le> 99999999))
   \<and> (3 \<le> days \<longrightarrow>
        (\<forall>v. 20000000 \<le> v \<and> v \<le> 99999999 \<longrightarrow>
           (\<exists>src. unit_draws src
              \<and> generatePriceHistory zone src now symbol' basePrice days \<noteq> []
              \<and> (\<forall>b \<in> set (generatePriceHistory zone src now symbol' basePrice days).
                    volume b = v))))
   \<and> (\<forall>u v. (\<forall>b \<in> set (generatePriceHistory zone (steady u) now symbol' basePrice days).
                 (volume b = v) =
                   ((of_int v - 20000000) / 80000000 \<le> u
                    \<and> u < (of_int v + 1 - 20000000) / 80000000)))"
proof (intro conjI impI allI ballI)
  fix b
  assume "unit_draws rnd" "b \<in> set (generatePriceHistory zone rnd now symbol' basePrice days)"
  then have *: "20000000 \<le> volume b \<and> volume b \<le> 99999999"
    unfolding generatePriceHistory_def by (rule historyLoop_volume)
  from * show "20000000 \<le> volume b" ..
  from * show "volume b \<le> 99999999" ..
next
  fix v :: int
  assume d: "3 \<le> days" and v: "20000000 \<le> v \<and> v \<le> 99999999"
  let ?u = "(of_int v - 20000000) / 80000000 :: real"
  from v have "0 \<le> ?u" "?u < 1" by simp_all
  then have "unit_draws (steady ?u)" by (rule unit_draws_steady)
  moreover have "generatePriceHistory zone (steady ?u) now symbol' basePrice days \<noteq> []"
    unfolding generatePriceHistory_def using d by (rule historyLoop_nonempty)
  moreover have "\<forall>b \<in> set (generatePriceHistory zone (steady ?u) now symbol' basePrice days).
      volume b = v"
    unfolding generatePriceHistory_def using historyLoop_steady volumeOf_hit by metis
  ultimately show "\<exists>src. unit_draws src
      \<and> generatePriceHistory zone src now symbol' basePrice days \<noteq> []
      \<and> (\<forall>b \<in> set (generatePriceHistory zone src now symbol' basePrice days). volume b = v)"
    by blast
next
  fix u :: real and v :: int and b
  assume "b \<in> set (generatePriceHistory zone (steady u) now symbol' basePrice days)"
  then have "volume b = volumeOf u"
    unfolding generatePriceHistory_def by (rule historyLoop_steady)
  then show "(volume b = v) =
      ((of_int v - 20000000) / 80000000 \<le> u \<and> u < (of_int v + 1 - 20000000) / 80000000)"
    by (simp only: volumeOf_interval)
qed

text \<open>
  Claim C7 as stated, with the closed range, fails at its upper end: with draws in
  \<open>[0, 1)\<close> no bar has the volume 100,000,000, here on a Thursday that gives one bar.
\<close>

theorem volume_range_counterexample:
  "\<not> (\<exists>src. unit_draws src
         \<and> (\<exists>b \<in> set (generatePriceHistory regular src 0 ''AAPL'' 100 0).
               volume b = 100000000))"
proof
  assume "\<exists>src. unit_draws src
         \<and> (\<exists>b \<in> set (generatePriceHistory regular src 0 ''AAPL'' 100 0).
               volume b = 100000000)"
  then obtain src b where "unit_draws src"
    "b \<in> set (historyLoop regular src 0 100 0)" "volume b = 100000000"
    unfolding generatePriceHistory_def by blast
  with historyLoop_volume [of src b regular 0 100 0] show False by simp
qed

theorem volume_range_witness:
  "unit_draws halves
   \<and> map volume (generatePriceHistory regular halves 0 ''AAPL'' 100 0) = [60000000]
   \<and> (\<exists>src. unit_draws src
         \<and> generatePriceHistory regular src 0 ''AAPL'' 100 3 \<noteq> []
         \<and> (\<forall>b \<in> set (generatePriceHistory regular src 0 ''AAPL'' 100 3).
               volume b = 99999999))"
proof -
  have "\<exists>src. unit_draws src
         \<and> generatePriceHistory regular src 0 ''AAPL'' 100 3 \<noteq> []
         \<and> (\<forall>b \<in> set (generatePriceHistory regular src 0 ''AAPL'' 100 3).
               volume b = 99999999)"
    using volume_range [of halves regular 0 "''AAPL''" 100 3] by simp
  then show ?thesis using thursday_positive(4) unit_draws_halves by simp
qed

text \<open>
  Claim C10. For every generated bar of a run whose draws lie in \<open>[0, 1)\<close> and whose base
  price is not negative, \<open>low \<le> price \<le> high\<close>: the fields are the roundings of a running
  price \<open>q \<ge> 0\<close>, of \<open>q\<close> times a factor at least 1 and of \<open>q\<close> times a factor at most 1, for
  which the order holds before rounding, and rounding keeps it. The lookup, the one
  caller of the generator, passes a positive base price, so the order holds for every
  bar of the history that a lookup of a non-empty symbol text stores. The \<open>open\<close> field is not bound by the interval: with the
  draw 0.99 for \<open>open\<close> and 0 for \<open>high\<close>, base price 100 gives
  \<open>high = 97.12 < open = 97.6\<close>.
\<close>

theorem ohlc_order:
  "(unit_draws rnd \<and> 0 \<le> basePrice \<longrightarrow>
      (\<forall>b \<in> set (generatePriceHistory zone rnd now symbol' basePrice days).
         low b \<le> price b \<and> price b \<le> high b
         \<and> (\<exists>q u v w. 0 \<le> q \<and> lowOf q w \<le> q \<and> q \<le> highOf q v
              \<and> price b = toFixed2 q \<and> open' b = toFixed2 (openOf q u)
              \<and> high b = toFixed2 (highOf q v) \<and> low b = toFixed2 (lowOf q w))))
   \<and> (unit_draws rnd \<and> sym' \<noteq> [] \<longrightarrow>
        (\<forall>b \<in> set (history (run st (fetchData zone rnd now sym'))).
           low b \<le> price b \<and> price b \<le> high b))
   \<and> map high (generatePriceHistory regular openHigh 0 ''AAPL'' 100 0) = [97.12]
   \<and> map open' (generatePriceHistory regular openHigh 0 ''AAPL'' 100 0) = [97.6]"
proof -
  have gen: "low b \<le> price b \<and> price b \<le> high b
      \<and> (\<exists>q u v w. 0 \<le> q \<and> lowOf q w \<le> q \<and> q \<le> highOf q v
           \<and> price b = toFixed2 q \<and> open' b = toFixed2 (openOf q u)
           \<and> high b = toFixed2 (highOf q v) \<and> low b = toFixed2 (lowOf q w))"
    if "unit_draws src" "0 \<le> p" "b \<in> set (generatePriceHistory zone src now name' p n)"
    for src p b name' n
  proof -
    from that have ex: "\<exists>q u v w. 0 \<le> q \<and> lowOf q w \<le> q \<and> q \<le> highOf q v
        \<and> price b = toFixed2 q \<and> open' b = toFixed2 (openOf q u)
        \<and> high b = toFixed2 (highOf q v) \<and> low b = toFixed2 (lowOf q w)"
      unfolding generatePriceHistory_def using historyLoop_bar by blast
    then have "low b \<le> price b" "price b \<le> high b" using toFixed2_mono by auto
    with ex show ?thesis by blast
  qed
  have look: "low b \<le> price b \<and> price b \<le> high b"
    if u: "unit_draws rnd" and n: "sym' \<noteq> []"
      and b: "b \<in> set (history (run st (fetchData zone rnd now sym')))"
    for b
  proof (cases "stockInfoOf (toUpperCase sym')")
    case None
    with n b show ?thesis by (simp add: fetchData_missing run_failure)
  next
    case (Some q)
    with b have "b \<in> set (generatePriceHistory zone (shift 1 rnd) now (toUpperCase sym')
        (Quote.price q * 0.85) 90)"
      by (simp add: fetchData_found run_success)
    moreover have "0 \<le> Quote.price q * 0.85"
      using store_price_positive [OF Some] by simp
    ultimately show ?thesis
      using gen [OF unit_draws_shift [OF u]] by blast
  qed
  have "map high (generatePriceHistory regular openHigh 0 ''AAPL'' 100 0) = [97.12]"
    by (simp add: generatePriceHistory_def historyLoop_unfold dateBack_regular getDay_def
        openHigh_def highOf_def dailyReturn_def toFixed2_def)
  moreover have "map open' (generatePriceHistory regular openHigh 0 ''AAPL'' 100 0) = [97.6]"
    by (simp add: generatePriceHistory_def historyLoop_unfold dateBack_regular getDay_def
        openHigh_def openOf_def dailyReturn_def toFixed2_def)
  ultimately show ?thesis using gen look by blast
qed

theorem ohlc_order_witness:
  "unit_draws halves \<and> (0::real) \<le> 100
   \<and> map price (generatePriceHistory regular halves 0 ''AAPL'' 100 0) = [100.12]
   \<and> low (hd (generatePriceHistory regular halves 0 ''AAPL'' 100 0))
        \<le> price (hd (generatePriceHistory regular halves 0 ''AAPL'' 100 0))
   \<and> price (hd (generatePriceHistory regular halves 0 ''AAPL'' 100 0))
        \<le> high (hd (generatePriceHistory regular halves 0 ''AAPL'' 100 0))
   \<and> history (run idle (fetchData regular halves 0 ''aapl'')) \<noteq> []
   \<and> low (hd (history (run idle (fetchData regular halves 0 ''aapl''))))
        \<le> price (hd (history (run idle (fetchData regular halves 0 ''aapl''))))
   \<and> price (hd (history (run idle (fetchData regular halves 0 ''aapl''))))
        \<le> high (hd (history (run idle (fetchData regular halves 0 ''aapl''))))"
proof -
  obtain b where b: "generatePriceHistory regular halves 0 ''AAPL'' 100 0 = [b]"
    using thursday_positive(1) by auto
  from ohlc_order [of halves 100 regular 0 "''AAPL''" 0] unit_draws_halves b
  have one: "low b \<le> price b \<and> price b \<le> high b" by simp
  have q: "stockInfoOf (toUpperCase ''aapl'') =
     Some \<lparr> name = ''Apple Inc.'', price = 189.3, change = 1.24, changePercent = 0.66,
        marketCap = ''2.94T'', pe = 29.4, volume = ''58.2M'', sector = ''Technology'' \<rparr>"
    by (simp only: aapl aapl_info)
  have ne: "history (run idle (fetchData regular halves 0 ''aapl'')) \<noteq> []"
    unfolding fetchData_found [OF q] run_success generatePriceHistory_def
    by (simp add: historyLoop_nonempty)
  then have "hd (history (run idle (fetchData regular halves 0 ''aapl'')))
      \<in> set (history (run idle (fetchData regular halves 0 ''aapl'')))"
    by (rule hd_in_set)
  with ohlc_order [of halves 100 regular 0 "''AAPL''" 0 "''aapl''" idle] unit_draws_halves
  have "low (hd (history (run idle (fetchData regular halves 0 ''aapl''))))
        \<le> price (hd (history (run idle (fetchData regular halves 0 ''aapl''))))
     \<and> price (hd (history (run idle (fetchData regular halves 0 ''aapl''))))
        \<le> high (hd (history (run idle (fetchData regular halves 0 ''aapl''))))"
    by blast
  with one ne b thursday_positive(1) unit_draws_halves show ?thesis by simp
qed

end
